theory Spec2Isabelle
  imports Complex_Main "HOL-Library.Sublist"
begin

section \<open>The dashboard script \<open>app.py\<close>\<close>

text \<open>
  The script is one Streamlit page: it reads the sidebar, checks the auto-refresh timer and
  then renders one section per ticker. The model follows the script from top to bottom.
  What the script shows and what it sends over the network is recorded, in program order,
  as a list of \<open>effect\<close>s; a Python exception is a value \<open>Exn cls msg\<close>, where \<open>msg\<close> is
  what \<open>str(e)\<close> returns.

  Python floats are modelled as exact rationals extended by the two infinities and NaN:
  the rounding of binary floating point to 53 bits is not modelled.
  Strings are byte lists (UTF-8).
\<close>

subsection \<open>Python values\<close>

datatype fl = Fin rat | Inf bool | NaN

text \<open>\<open>Inf True\<close> is \<open>inf\<close>, \<open>Inf False\<close> is \<open>-inf\<close>.\<close>

datatype exn = Exn string string

fun exn_str :: "exn \<Rightarrow> string" where
  "exn_str (Exn cls msg) = msg"

datatype pyval =
    PNone
  | PBool bool
  | PInt int
  | PFloat fl
  | PStr string
  | PList "pyval list"
  | PDict "(string \<times> pyval) list"

text \<open>Truthiness, as \<open>if x\<close>, \<open>not x\<close> and \<open>x and y\<close> test it.\<close>

fun fl_truthy :: "fl \<Rightarrow> bool" where
  "fl_truthy (Fin q) = (q \<noteq> 0)"
| "fl_truthy (Inf s) = True"
| "fl_truthy NaN = True"

fun truthy :: "pyval \<Rightarrow> bool" where
  "truthy PNone = False"
| "truthy (PBool b) = b"
| "truthy (PInt i) = (i \<noteq> 0)"
| "truthy (PFloat x) = fl_truthy x"
| "truthy (PStr s) = (s \<noteq> [])"
| "truthy (PList xs) = (xs \<noteq> [])"
| "truthy (PDict kvs) = (kvs \<noteq> [])"

fun type_name :: "pyval \<Rightarrow> string" where
  "type_name PNone = ''NoneType''"
| "type_name (PBool b) = ''bool''"
| "type_name (PInt i) = ''int''"
| "type_name (PFloat x) = ''float''"
| "type_name (PStr s) = ''str''"
| "type_name (PList xs) = ''list''"
| "type_name (PDict kvs) = ''dict''"

text \<open>\<open>d.get(key)\<close> and \<open>d.get(key, default)\<close> on a dict.\<close>

definition dict_get :: "(string \<times> pyval) list \<Rightarrow> string \<Rightarrow> pyval" where
  "dict_get d k = (case map_of d k of None \<Rightarrow> PNone | Some v \<Rightarrow> v)"

definition dict_get_default :: "(string \<times> pyval) list \<Rightarrow> string \<Rightarrow> pyval \<Rightarrow> pyval" where
  "dict_get_default d k dflt = (case map_of d k of None \<Rightarrow> dflt | Some v \<Rightarrow> v)"

subsection \<open>Float arithmetic\<close>

fun fl_neg :: "fl \<Rightarrow> fl" where
  "fl_neg (Fin q) = Fin (- q)"
| "fl_neg (Inf s) = Inf (\<not> s)"
| "fl_neg NaN = NaN"

fun fl_add :: "fl \<Rightarrow> fl \<Rightarrow> fl" where
  "fl_add (Fin a) (Fin b) = Fin (a + b)"
| "fl_add (Fin a) (Inf s) = Inf s"
| "fl_add (Inf s) (Fin b) = Inf s"
| "fl_add (Inf s) (Inf t) = (if s = t then Inf s else NaN)"
| "fl_add NaN y = NaN"
| "fl_add x NaN = NaN"

definition fl_sub :: "fl \<Rightarrow> fl \<Rightarrow> fl" where
  "fl_sub x y = fl_add x (fl_neg y)"

fun fl_mul :: "fl \<Rightarrow> fl \<Rightarrow> fl" where
  "fl_mul (Fin a) (Fin b) = Fin (a * b)"
| "fl_mul (Fin a) (Inf s) = (if a = 0 then NaN else Inf (s = (0 < a)))"
| "fl_mul (Inf s) (Fin b) = (if b = 0 then NaN else Inf (s = (0 < b)))"
| "fl_mul (Inf s) (Inf t) = Inf (s = t)"
| "fl_mul NaN y = NaN"
| "fl_mul x NaN = NaN"

text \<open>
  Division of numpy floats: a zero divisor gives an infinity or NaN (with a warning),
  never an exception.
\<close>

fun fl_div :: "fl \<Rightarrow> fl \<Rightarrow> fl" where
  "fl_div (Fin a) (Fin b) =
     (if b = 0 then (if a = 0 then NaN else Inf (0 < a)) else Fin (a / b))"
| "fl_div (Fin a) (Inf s) = Fin 0"
| "fl_div (Inf s) (Fin b) = Inf (s = (0 \<le> b))"
| "fl_div (Inf s) (Inf t) = NaN"
| "fl_div NaN y = NaN"
| "fl_div x NaN = NaN"

subsection \<open>Formatting numbers and values\<close>

definition digit_char :: "nat \<Rightarrow> char" where
  "digit_char d = char_of (48 + d)"

fun dec :: "nat \<Rightarrow> string" where
  "dec n = (if n < 10 then [digit_char n] else dec (n div 10) @ [digit_char (n mod 10)])"

declare dec.simps [simp del]

definition show_int :: "int \<Rightarrow> string" where
  "show_int i = (if i < 0 then ''-'' @ dec (nat (- i)) else dec (nat i))"

text \<open>The thousands separator of the format option \<open>,\<close>: a comma before every group
  of three digits, counted from the right.\<close>

fun group3_rev :: "string \<Rightarrow> string" where
  "group3_rev (a # b # c # d # ds) = a # b # c # CHR '','' # group3_rev (d # ds)"
| "group3_rev ds = ds"

definition group3 :: "string \<Rightarrow> string" where
  "group3 s = rev (group3_rev (rev s))"

definition round_half_even :: "rat \<Rightarrow> int" where
  "round_half_even x =
     (let f = \<lfloor>x\<rfloor>; d = x - of_int f in
      if d < 1 / 2 then f
      else if 1 / 2 < d then f + 1
      else if even f then f else f + 1)"

definition zero_pad :: "nat \<Rightarrow> string \<Rightarrow> string" where
  "zero_pad w s = replicate (w - length s) (CHR ''0'') @ s"

text \<open>
  \<open>format_f grouping prec x\<close> is \<open>format(x, ",.<prec>f")\<close> (with the comma) or
  \<open>format(x, ".<prec>f")\<close> (without) for a float \<open>x\<close>: the value rounded to \<open>prec\<close>
  decimals, a tie going to the even neighbour; the sign of a negative value stays when it
  rounds to zero.
\<close>

fun format_f :: "bool \<Rightarrow> nat \<Rightarrow> fl \<Rightarrow> string" where
  "format_f grouping prec (Fin q) =
     (let scaled = nat (round_half_even (\<bar>q\<bar> * 10 ^ prec));
          ip = dec (scaled div 10 ^ prec);
          fp = zero_pad prec (dec (scaled mod 10 ^ prec))
      in (if q < 0 then ''-'' else [])
         @ (if grouping then group3 ip else ip)
         @ (if prec = 0 then [] else ''.'' @ fp))"
| "format_f grouping prec (Inf s) = (if s then ''inf'' else ''-inf'')"
| "format_f grouping prec NaN = ''nan''"

definition quoted :: "string \<Rightarrow> string" where
  "quoted s = [CHR 0x27] @ s @ [CHR 0x27]"

text \<open>
  A format specification ending in \<open>f\<close> applied to any value, as in
  \<open>f"{price:,.2f}"\<close>: an int or a bool is converted to a float first, a string has no
  format code \<open>f\<close>, the other types take no format specification at all.
\<close>

fun format_spec_f :: "bool \<Rightarrow> nat \<Rightarrow> pyval \<Rightarrow> exn + string" where
  "format_spec_f g p (PFloat x) = Inr (format_f g p x)"
| "format_spec_f g p (PInt i) = Inr (format_f g p (Fin (of_int i)))"
| "format_spec_f g p (PBool b) = Inr (format_f g p (Fin (if b then 1 else 0)))"
| "format_spec_f g p (PStr s) =
     Inl (Exn ''ValueError''
       (''Unknown format code 'f' for object of type '' @ quoted ''str''))"
| "format_spec_f g p v =
     Inl (Exn ''TypeError''
       (''unsupported format string passed to '' @ type_name v @ ''.__format__''))"

text \<open>
  \<open>str(x)\<close>, which an f-string applies to a value without format specification. The
  printing of floats and containers is Python's \<open>repr\<close>, taken as a parameter.
\<close>

fun py_str :: "(pyval \<Rightarrow> string) \<Rightarrow> pyval \<Rightarrow> string" where
  "py_str rp PNone = ''None''"
| "py_str rp (PBool b) = (if b then ''True'' else ''False'')"
| "py_str rp (PInt i) = show_int i"
| "py_str rp (PStr s) = s"
| "py_str rp v = rp v"

definition no_attribute :: "pyval \<Rightarrow> string \<Rightarrow> exn" where
  "no_attribute v a =
     Exn ''AttributeError''
       (quoted (type_name v) @ '' object has no attribute '' @ quoted a)"

text \<open>\<open>x.get(key, default)\<close> on any value: only a dict has the method.\<close>

fun item_get :: "pyval \<Rightarrow> string \<Rightarrow> pyval \<Rightarrow> exn + pyval" where
  "item_get (PDict d) k dflt = Inr (dict_get_default d k dflt)"
| "item_get v k dflt = Inl (no_attribute v ''get'')"

subsection \<open>String methods\<close>

text \<open>
  \<open>s.replace(old, "")\<close> for a non-empty \<open>old\<close>: every occurrence, found from left
  to right, is removed. The counter is the number of characters of a found occurrence
  still to skip.
\<close>

fun remove_all :: "string \<Rightarrow> nat \<Rightarrow> string \<Rightarrow> string" where
  "remove_all old k [] = []"
| "remove_all old (Suc k) (c # cs) = remove_all old k cs"
| "remove_all old 0 (c # cs) =
     (if old \<noteq> [] \<and> prefix old (c # cs) then remove_all old (length old - 1) cs
      else c # remove_all old 0 cs)"

text \<open>\<open>s.split("/")[0]\<close>: what stands before the first slash.\<close>

definition before_slash :: "string \<Rightarrow> string" where
  "before_slash s = takeWhile (\<lambda>c. c \<noteq> CHR ''/'') s"

text \<open>
  The characters \<open>str.strip()\<close> removes are the code points for which \<open>str.isspace\<close>
  holds, here in UTF-8: U+0009 to U+000D, U+001C to U+0020, U+0085, U+00A0, U+1680, U+2000
  to U+200A, U+2028, U+2029, U+202F, U+205F and U+3000.
\<close>

definition whitespace :: "string list" where
  "whitespace =
     map (\<lambda>c. [c]) [CHR 0x09, CHR 0x0A, CHR 0x0B, CHR 0x0C, CHR 0x0D,
                    CHR 0x1C, CHR 0x1D, CHR 0x1E, CHR 0x1F, CHR 0x20]
     @ [[CHR 0xC2, CHR 0x85], [CHR 0xC2, CHR 0xA0], [CHR 0xE1, CHR 0x9A, CHR 0x80]]
     @ map (\<lambda>c. [CHR 0xE2, CHR 0x80, c])
         [CHR 0x80, CHR 0x81, CHR 0x82, CHR 0x83, CHR 0x84, CHR 0x85, CHR 0x86, CHR 0x87,
          CHR 0x88, CHR 0x89, CHR 0x8A, CHR 0xA8, CHR 0xA9, CHR 0xAF]
     @ [[CHR 0xE2, CHR 0x81, CHR 0x9F], [CHR 0xE3, CHR 0x80, CHR 0x80]]"

definition ws_len :: "string list \<Rightarrow> string \<Rightarrow> nat" where
  "ws_len pats s = (case filter (\<lambda>p. prefix p s) pats of [] \<Rightarrow> 0 | p # ps \<Rightarrow> length p)"

fun lstrip :: "string list \<Rightarrow> nat \<Rightarrow> string \<Rightarrow> string" where
  "lstrip pats k [] = []"
| "lstrip pats (Suc k) (c # cs) = lstrip pats k cs"
| "lstrip pats 0 (c # cs) =
     (if ws_len pats (c # cs) = 0 then c # cs else lstrip pats (ws_len pats (c # cs) - 1) cs)"

definition strip :: "string \<Rightarrow> string" where
  "strip s = rev (lstrip (map rev whitespace) 0 (rev (lstrip whitespace 0 s)))"

subsection \<open>The auto-refresh timer (lines 101-107)\<close>

text \<open>
  \<open>st.session_state\<close> survives from one run of the script to the next; \<open>time.time()\<close>
  reads a clock, and every read may see a later time. The world holds both: the clock is
  the sequence of its readings, \<open>reads\<close> counts the reads so far.
\<close>

record world =
  session_state :: "string \<rightharpoonup> rat"
  clock :: "nat \<Rightarrow> rat"
  reads :: nat

datatype control = StRerun

definition time_time :: "world \<Rightarrow> rat \<times> world" where
  "time_time w = (clock w (reads w), w\<lparr>reads := Suc (reads w)\<rparr>)"

definition session_store :: "string \<Rightarrow> rat \<Rightarrow> world \<Rightarrow> world" where
  "session_store k v w = w\<lparr>session_state := (session_state w)(k \<mapsto> v)\<rparr>"

text \<open>
  The result lists the calls of \<open>st.rerun()\<close>, which ends the run of the script and
  starts it again from the top.
\<close>

definition auto_refresh :: "int \<Rightarrow> world \<Rightarrow> control list \<times> world" where
  "auto_refresh refresh_rate w =
     (case session_state w ''last_refresh'' of
        None \<Rightarrow>
          (let (t, w1) = time_time w in ([], session_store ''last_refresh'' t w1))
      | Some last_refresh \<Rightarrow>
          (let (now, w1) = time_time w in
           if now - last_refresh > of_int refresh_rate then
             (let (now', w2) = time_time w1 in
              ([StRerun], session_store ''last_refresh'' now' w2))
           else ([], w1)))"

subsection \<open>Effects, exceptions and the outside world\<close>

record bar =
  Date :: int
  Open :: fl
  High :: fl
  Low :: fl
  Close :: fl
  Volume :: int

text \<open>A price history (the data frame of \<open>yfinance\<close>) is the list of its rows.\<close>

record chart =
  chart_series :: "(int \<times> fl) list"
  chart_label :: string
  chart_title :: string
  chart_xlabel :: string
  chart_ylabel :: string
  chart_background :: bool

datatype effect =
    StWarning string
  | StError string
  | StInfo string
  | StMarkdown string
  | StCaption string
  | StSubheader string
  | StImage string
  | StPyplot chart
  | StMetric string string "string option"
  | StExpander string string
  | HttpGet string "(string \<times> string) list"

text \<open>
  \<open>StExpander label body\<close> is \<open>with st.expander(label): st.write(body)\<close>;
  \<open>StMetric label v delta\<close> is \<open>st.metric(label, v, delta)\<close>; \<open>HttpGet url params\<close> is a
  request sent by \<open>requests.get\<close>. The layout calls (\<open>st.columns\<close> and the \<open>with\<close> blocks
  of the columns) only place what is shown and are not recorded.
\<close>

record response =
  status_code :: int
  content :: string
  json :: "exn + pyval"

text \<open>
  What the script does not compute itself: the market data of \<open>yfinance\<close>, the answers to
  HTTP requests, whether \<open>PIL\<close> and \<open>matplotlib\<close> raise, today's date as a day number with
  its ISO format, \<open>datetime.fromtimestamp(x).strftime("%b %d, %Y")\<close> and \<open>repr\<close>. During one
  run of the script the outside world answers equal requests equally, so the caches of
  \<open>st.cache_data\<close> change no result and are not modelled.
\<close>

record env =
  yf_get_info :: "string \<Rightarrow> exn + (string \<times> pyval) list"
  yf_history :: "string \<Rightarrow> string \<Rightarrow> exn + bar list"
  requests_get :: "string \<Rightarrow> (string \<times> string) list \<Rightarrow> exn + response"
  image_open :: "string \<Rightarrow> exn option"
  draw_chart :: "chart \<Rightarrow> exn option"
  today :: int
  isoformat :: "int \<Rightarrow> string"
  strftime :: "pyval \<Rightarrow> exn + string"
  py_repr :: "pyval \<Rightarrow> string"

text \<open>The sidebar: the selected period, the Finnhub key, and whether a background image
  is loaded.\<close>

record config =
  period :: string
  finnhub_api :: string
  bg_image :: bool

text \<open>
  A computation gives the effects it had, in order, and then either the exception that
  ended it or its value.
\<close>

type_synonym 'a res = "effect list \<times> (exn + 'a)"

definition ret :: "'a \<Rightarrow> 'a res" where
  "ret a = ([], Inr a)"

definition throw :: "exn \<Rightarrow> 'a res" where
  "throw e = ([], Inl e)"

definition lift :: "exn + 'a \<Rightarrow> 'a res" where
  "lift r = ([], r)"

definition emit :: "effect \<Rightarrow> unit res" where
  "emit ev = ([ev], Inr ())"

definition bind :: "'a res \<Rightarrow> ('a \<Rightarrow> 'b res) \<Rightarrow> 'b res" where
  "bind m f =
     (case m of
        (out, Inl e) \<Rightarrow> (out, Inl e)
      | (out, Inr a) \<Rightarrow> (case f a of (out', r) \<Rightarrow> (out @ out', r)))"

definition andthen :: "unit res \<Rightarrow> 'b res \<Rightarrow> 'b res" where
  "andthen m n = bind m (\<lambda>u. n)"

text \<open>\<open>try: m except Exception as e: h e\<close>\<close>

definition catch :: "'a res \<Rightarrow> (exn \<Rightarrow> 'a res) \<Rightarrow> 'a res" where
  "catch m h =
     (case m of
        (out, Inl e) \<Rightarrow> (case h e of (out', r) \<Rightarrow> (out @ out', r))
      | (out, Inr a) \<Rightarrow> (out, Inr a))"

definition request :: "env \<Rightarrow> string \<Rightarrow> (string \<times> string) list \<Rightarrow> response res" where
  "request env url params = ([HttpGet url params], requests_get env url params)"

subsection \<open>The cached data functions (lines 109-133)\<close>

definition get_stock_data :: "env \<Rightarrow> string \<Rightarrow> string \<Rightarrow> bar list res" where
  "get_stock_data env ticker prd = lift (yf_history env ticker prd)"

definition get_info_cached :: "env \<Rightarrow> string \<Rightarrow> (string \<times> pyval) list res" where
  "get_info_cached env ticker = lift (yf_get_info env ticker)"

definition FINNHUB_NEWS_URL :: string where
  "FINNHUB_NEWS_URL = ''https://finnhub.io/api/v1/company-news''"

text \<open>\<open>for item in data\<close>: a list gives its elements, a dict its keys, a string its
  characters (here its bytes: each of them is a string, which has no \<open>get\<close>); nothing
  else can be iterated.\<close>

fun iter_items :: "pyval \<Rightarrow> exn + pyval list" where
  "iter_items (PList xs) = Inr xs"
| "iter_items (PDict kvs) = Inr (map (\<lambda>kv. PStr (fst kv)) kvs)"
| "iter_items (PStr s) = Inr (map (\<lambda>c. PStr [c]) s)"
| "iter_items v =
     Inl (Exn ''TypeError'' (quoted (type_name v) @ '' object is not iterable''))"

text \<open>\<open>[item for item in data if item.get("headline") and item.get("url")]\<close>\<close>

fun keep_items :: "pyval list \<Rightarrow> exn + pyval list" where
  "keep_items [] = Inr []"
| "keep_items (item # rest) =
     (case item_get item ''headline'' PNone of
        Inl e \<Rightarrow> Inl e
      | Inr headline \<Rightarrow>
          (case (if truthy headline then item_get item ''url'' PNone else Inr headline) of
             Inl e \<Rightarrow> Inl e
           | Inr cond \<Rightarrow>
               (case keep_items rest of
                  Inl e \<Rightarrow> Inl e
                | Inr kept \<Rightarrow> Inr (if truthy cond then item # kept else kept))))"

definition get_company_news :: "env \<Rightarrow> string \<Rightarrow> string \<Rightarrow> pyval list res" where
  "get_company_news env symbol api_key =
     (if api_key = [] then ret []
      else
        let past = today env - 30;
            params = [(''symbol'', symbol), (''from'', isoformat env past),
                      (''to'', isoformat env (today env)), (''token'', api_key)]
        in catch
             (bind (request env FINNHUB_NEWS_URL params) (\<lambda>response.
                if status_code response = 200 then
                  bind (lift (json response)) (\<lambda>data.
                  bind (lift (iter_items data)) (\<lambda>items.
                  lift (keep_items items)))
                else ret []))
             (\<lambda>e. ret []))"

subsection \<open>The section of one ticker (lines 136-247)\<close>

text \<open>Lines 146-150: the logo field, or else a guess from the domain of the website.\<close>

definition resolve_logo :: "(string \<times> pyval) list \<Rightarrow> pyval res" where
  "resolve_logo info =
     (let logo_url = dict_get info ''logo_url'' in
      if \<not> truthy logo_url then
        (case dict_get_default info ''website'' (PStr []) of
           PStr website \<Rightarrow>
             (let domain =
                    before_slash (remove_all ''http://'' 0 (remove_all ''https://'' 0 website))
              in if domain \<noteq> [] then ret (PStr (''https://logo.clearbit.com/'' @ domain))
                 else ret logo_url)
         | v \<Rightarrow> throw (no_attribute v ''replace''))
      else ret logo_url)"

text \<open>
  Lines 154-160: the logo is fetched and shown inside \<open>try: ... except: pass\<close>.
  \<open>requests.get\<close> refuses a URL that is not a string before it sends anything.
\<close>

definition show_logo :: "env \<Rightarrow> pyval \<Rightarrow> unit res" where
  "show_logo env logo_url =
     (if truthy logo_url then
        catch
          (case logo_url of
             PStr url \<Rightarrow>
               bind (request env url []) (\<lambda>r.
                 if status_code r = 200 then
                   (case image_open env (content r) of
                      Some e \<Rightarrow> throw e
                    | None \<Rightarrow> emit (StImage (content r)))
                 else ret ())
           | v \<Rightarrow> throw (Exn ''InvalidURL'' (py_str (py_repr env) v)))
          (\<lambda>e. ret ())
      else ret ())"

definition company_header :: "env \<Rightarrow> (string \<times> pyval) list \<Rightarrow> string \<Rightarrow> unit res" where
  "company_header env info ticker =
     bind (resolve_logo info) (\<lambda>logo_url.
     andthen (show_logo env logo_url)
    (andthen (emit (StMarkdown (''### '' @
        py_str (py_repr env) (dict_get_default info ''shortName'' (PStr ticker)))))
             (emit (StCaption (
        py_str (py_repr env) (dict_get_default info ''sector'' (PStr ''N/A'')) @ '' | '' @
        py_str (py_repr env) (dict_get_default info ''industry'' (PStr ''N/A'')))))))"

text \<open>Lines 165-181: the chart of the closing prices, drawn by \<open>matplotlib\<close>.\<close>

definition glow_chart :: "env \<Rightarrow> config \<Rightarrow> string \<Rightarrow> bar list \<Rightarrow> unit res" where
  "glow_chart env cfg ticker hist =
     (let fig = \<lparr>chart_series = map (\<lambda>b. (Date b, Close b)) hist,
                 chart_label = ticker,
                 chart_title = ticker @ '' Stock Price ('' @ period cfg @ '')'',
                 chart_xlabel = ''Date'',
                 chart_ylabel = ''Price ($)'',
                 chart_background = bg_image cfg\<rparr>
      in case draw_chart env fig of
           Some e \<Rightarrow> throw e
         | None \<Rightarrow> emit (StPyplot fig))"

text \<open>Lines 189-191: the texts of the first three metrics.\<close>

definition price_text :: "pyval \<Rightarrow> exn + string" where
  "price_text price =
     (if truthy price then
        (case format_spec_f True 2 price of Inl e \<Rightarrow> Inl e | Inr s \<Rightarrow> Inr (''$'' @ s))
      else Inr ''N/A'')"

definition cap_text :: "pyval \<Rightarrow> exn + string" where
  "cap_text cap =
     (if truthy cap then
        (case format_spec_f True 0 cap of Inl e \<Rightarrow> Inl e | Inr s \<Rightarrow> Inr (''$'' @ s))
      else Inr ''N/A'')"

definition high_low_text :: "(pyval \<Rightarrow> string) \<Rightarrow> pyval \<Rightarrow> pyval \<Rightarrow> string" where
  "high_low_text rp high low = ''$'' @ py_str rp high @ '' / $'' @ py_str rp low"

text \<open>\<open>xs.iloc[i]\<close>: a negative position counts from the end.\<close>

definition iloc :: "'a list \<Rightarrow> int \<Rightarrow> exn + 'a" where
  "iloc xs i =
     (if 0 \<le> i \<and> i < int (length xs) then Inr (xs ! nat i)
      else if i < 0 \<and> - int (length xs) \<le> i then Inr (xs ! nat (int (length xs) + i))
      else Inl (Exn ''IndexError'' ''single positional indexer is out-of-bounds''))"

text \<open>Lines 192-197: the fourth metric, from a history of five days.\<close>

definition daily_change :: "env \<Rightarrow> string \<Rightarrow> unit res" where
  "daily_change env ticker =
     bind (get_stock_data env ticker ''5d'') (\<lambda>hist_5d.
       if 2 \<le> length hist_5d then
         bind (lift (iloc (map Close hist_5d) (- 1))) (\<lambda>c1.
         bind (lift (iloc (map Close hist_5d) (- 2))) (\<lambda>c2.
           let change = fl_sub c1 c2 in
           bind (lift (iloc (map Close hist_5d) (- 2))) (\<lambda>c2'.
             let pct = fl_mul (fl_div change c2') (Fin 100) in
             emit (StMetric ''Daily Change'' (''$'' @ format_f False 2 change)
                     (Some (format_f False 2 pct @ ''%''))))))
       else ret ())"

definition metrics :: "env \<Rightarrow> (string \<times> pyval) list \<Rightarrow> string \<Rightarrow> unit res" where
  "metrics env info ticker =
     (let price = dict_get info ''currentPrice'';
          cap = dict_get info ''marketCap'';
          high = dict_get info ''fiftyTwoWeekHigh'';
          low = dict_get info ''fiftyTwoWeekLow''
      in bind (lift (price_text price)) (\<lambda>p.
         andthen (emit (StMetric ''Current Price'' p None))
        (bind (lift (cap_text cap)) (\<lambda>c.
         andthen (emit (StMetric ''Market Cap'' c None))
        (andthen (emit (StMetric ''52w High / Low'' (high_low_text (py_repr env) high low) None))
                 (daily_change env ticker))))))"

text \<open>Lines 199-222: the company summary.\<close>

definition expander_css :: string where
  "expander_css =
     [CHR 0x0A] @
     ''                <style>'' @ [CHR 0x0A] @
     ''                div[data-testid='' @ [CHR 0x22] @ ''stExpander'' @ [CHR 0x22] @ ''] {'' @ [CHR 0x0A] @
     ''                    border: 1px solid #00ffff !important;'' @ [CHR 0x0A] @
     ''                    border-radius: 10px !important;'' @ [CHR 0x0A] @
     ''                    box-shadow: 0 0 15px #00ffff80;'' @ [CHR 0x0A] @
     ''                    background-color: rgba(0, 20, 30, 0.6) !important;'' @ [CHR 0x0A] @
     ''                }'' @ [CHR 0x0A] @
     ''                div[data-testid='' @ [CHR 0x22] @ ''stExpander'' @ [CHR 0x22] @ ''] > div:first-child {'' @ [CHR 0x0A] @
     ''                    color: #00f5ff !important;'' @ [CHR 0x0A] @
     ''                    font-weight: bold !important;'' @ [CHR 0x0A] @
     ''                    font-size: 1rem !important;'' @ [CHR 0x0A] @
     ''                    text-shadow: 0 0 8px #00ffff;'' @ [CHR 0x0A] @
     ''                }'' @ [CHR 0x0A] @
     ''                </style>'' @ [CHR 0x0A] @
     ''            ''"

definition expander_label :: string where
  "expander_label = [CHR 0xF0, CHR 0x9F, CHR 0x93, CHR 0x98] @ '' Company Info (click to expand)''"

definition no_description :: string where
  "no_description = ''No company description available.''"

definition company_info :: "(string \<times> pyval) list \<Rightarrow> unit res" where
  "company_info info =
     (let summary = dict_get_default info ''longBusinessSummary'' (PStr no_description) in
      if truthy summary then
        (case summary of
           PStr s \<Rightarrow>
             if strip s \<noteq> [] then
               andthen (emit (StMarkdown expander_css)) (emit (StExpander expander_label s))
             else emit (StInfo no_description)
         | v \<Rightarrow> throw (no_attribute v ''strip''))
      else emit (StInfo no_description))"

text \<open>Lines 226-243: the news.\<close>

definition news_card :: "string \<Rightarrow> string \<Rightarrow> string \<Rightarrow> string \<Rightarrow> string" where
  "news_card url headline source t_str =
     ''<div class='news-card'><a href='' @ quoted url @ '' target='_blank'><b>'' @ headline @
     ''</b></a><br><small>'' @ source @ '' | '' @ t_str @ ''</small></div>''"

fun news_cards :: "env \<Rightarrow> pyval list \<Rightarrow> unit res" where
  "news_cards env [] = ret ()"
| "news_cards env (article # rest) =
     bind (lift (item_get article ''datetime'' (PInt 0))) (\<lambda>ts.
     bind (lift (strftime env ts)) (\<lambda>t_str.
     bind (lift (item_get article ''url'' PNone)) (\<lambda>url.
     bind (lift (item_get article ''headline'' PNone)) (\<lambda>headline.
     bind (lift (item_get article ''source'' (PStr ''Unknown''))) (\<lambda>source.
     andthen
       (emit (StMarkdown (news_card (py_str (py_repr env) url) (py_str (py_repr env) headline)
                            (py_str (py_repr env) source) t_str)))
       (news_cards env rest))))))"

definition news_title :: "string \<Rightarrow> string" where
  "news_title ticker = [CHR 0xF0, CHR 0x9F, CHR 0x93, CHR 0xB0] @ '' '' @ ticker @ '' Recent News''"

definition enter_key_prompt :: string where
  "enter_key_prompt = ''Enter your Finnhub API key in the sidebar to enable company news.''"

definition news_section :: "env \<Rightarrow> config \<Rightarrow> string \<Rightarrow> unit res" where
  "news_section env cfg ticker =
     andthen (emit (StSubheader (news_title ticker)))
    (bind (if finnhub_api cfg = [] then andthen (emit (StInfo enter_key_prompt)) (ret [])
           else get_company_news env ticker (finnhub_api cfg)) (\<lambda>news.
       if news \<noteq> [] then news_cards env (take 5 news)
       else if finnhub_api cfg \<noteq> [] then emit (StInfo ''No recent news available.'')
       else ret ()))"

text \<open>
  The body of the \<open>try\<close> of the loop, lines 138-245. The \<open>continue\<close> after the warning
  ends the body without an exception.
\<close>

definition ticker_body :: "env \<Rightarrow> config \<Rightarrow> string \<Rightarrow> unit res" where
  "ticker_body env cfg ticker =
     bind (get_info_cached env ticker) (\<lambda>info.
     bind (get_stock_data env ticker (period cfg)) (\<lambda>hist.
       if hist = [] then emit (StWarning (''No data available for '' @ ticker))
       else
         andthen (company_header env info ticker)
        (andthen (glow_chart env cfg ticker hist)
        (andthen (metrics env info ticker)
        (andthen (company_info info)
        (andthen (emit (StMarkdown ''---''))
        (andthen (news_section env cfg ticker)
                 (emit (StMarkdown
                    ''<hr style='border: 1px solid #00f5ff; opacity: 0.3;'>'')))))))))"

text \<open>One turn of the loop: the body, and the handler of line 247.\<close>

definition render_ticker :: "env \<Rightarrow> config \<Rightarrow> string \<Rightarrow> unit res" where
  "render_ticker env cfg ticker =
     catch (ticker_body env cfg ticker)
       (\<lambda>e. emit (StError (''Could not load info for '' @ ticker @ '': '' @ exn_str e)))"

fun main_dashboard :: "env \<Rightarrow> config \<Rightarrow> string list \<Rightarrow> unit res" where
  "main_dashboard env cfg [] = ret ()"
| "main_dashboard env cfg (ticker # tickers) =
     andthen (render_ticker env cfg ticker) (main_dashboard env cfg tickers)"

subsection \<open>A sample world\<close>

text \<open>
  A small outside world on which the properties below are run: \<open>FAKE123\<close> is unknown to
  the market data provider, \<open>EMPTY\<close> has no price history, \<open>NEW\<close> has a single day of
  history, every other ticker has the five closes 100, 102, 101, 105, 103; the news
  provider answers with status 429 and every other host is unreachable.
\<close>

definition demo_bar :: "int \<Rightarrow> rat \<Rightarrow> bar" where
  "demo_bar d c =
     \<lparr>Date = d, Open = Fin c, High = Fin c, Low = Fin c, Close = Fin c, Volume = 1000\<rparr>"

definition demo_hist :: "bar list" where
  "demo_hist = [demo_bar 1 100, demo_bar 2 102, demo_bar 3 101, demo_bar 4 105, demo_bar 5 103]"

definition demo_info :: "(string \<times> pyval) list" where
  "demo_info = [(''shortName'', PStr ''Apple Inc.''), (''currentPrice'', PFloat (Fin 150)),
                (''marketCap'', PInt 0), (''longBusinessSummary'', PStr ''Apple designs phones.'')]"

definition demo_env :: env where
  "demo_env =
     \<lparr>yf_get_info = (\<lambda>t. if t = ''FAKE123'' then Inl (Exn ''KeyError'' ''no such ticker'')
                          else Inr demo_info),
      yf_history = (\<lambda>t p. if t = ''EMPTY'' then Inr []
                           else if t = ''NEW'' \<and> p = ''5d'' then Inr [demo_bar 5 103]
                           else Inr demo_hist),
      requests_get = (\<lambda>u ps. if u = FINNHUB_NEWS_URL
                              then Inr \<lparr>status_code = 429, content = [], json = Inr PNone\<rparr>
                              else Inl (Exn ''ConnectionError'' ''offline'')),
      image_open = (\<lambda>b. None),
      draw_chart = (\<lambda>c. None),
      today = 739000,
      isoformat = (\<lambda>d. if d = 739000 then ''2024-04-24'' else ''2024-03-25''),
      strftime = (\<lambda>v. Inr ''Apr 24, 2024''),
      py_repr = (\<lambda>v. ''?'')\<rparr>"

definition demo_cfg :: config where
  "demo_cfg = \<lparr>period = ''1mo'', finnhub_api = [], bg_image = False\<rparr>"

section \<open>Properties\<close>

subsection \<open>Sequencing, exceptions and the loop\<close>

lemma bind_lift_Inr: "bind (lift (Inr a)) f = f a"
  by (cases "f a") (simp add: bind_def lift_def)

lemma bind_lift_Inl: "bind (lift (Inl e)) f = ([], Inl e)"
  by (simp add: bind_def lift_def)

lemma andthen_result:
  "andthen m n =
     (case snd m of Inl e \<Rightarrow> (fst m, Inl e) | Inr u \<Rightarrow> (fst m @ fst n, snd n))"
  by (cases m; cases n; cases "snd m") (auto simp: andthen_def bind_def)

lemma catch_Inr: "catch (out, Inr a) h = (out, Inr a)"
  by (simp add: catch_def)

lemma catch_Inl: "catch (out, Inl e) h = (out @ fst (h e), snd (h e))"
  by (cases "h e") (simp add: catch_def)

text \<open>The handler of the loop ends every turn normally, so the loop itself never raises.\<close>

lemma render_ticker_returns: "snd (render_ticker env cfg ticker) = Inr ()"
  unfolding render_ticker_def
  by (cases "ticker_body env cfg ticker"; cases "snd (ticker_body env cfg ticker)")
     (auto simp: catch_def emit_def)

lemma main_dashboard_returns: "snd (main_dashboard env cfg tickers) = Inr ()"
  by (induction tickers) (simp_all add: ret_def andthen_result render_ticker_returns)

lemma main_dashboard_Cons:
  "main_dashboard env cfg (ticker # tickers) =
     (fst (render_ticker env cfg ticker) @ fst (main_dashboard env cfg tickers), Inr ())"
  by (simp add: andthen_result render_ticker_returns main_dashboard_returns)

lemma main_dashboard_append:
  "main_dashboard env cfg (before @ after) =
     (fst (main_dashboard env cfg before) @ fst (main_dashboard env cfg after), Inr ())"
proof (induction before)
  case Nil
  show ?case using main_dashboard_returns [of env cfg after]
    by (cases "main_dashboard env cfg after") (simp add: ret_def)
next
  case (Cons t ts)
  then show ?case by (simp only: append_Cons main_dashboard_Cons fst_conv append_assoc)
qed

subsection \<open>Positions counted from the end, and two formatted numbers\<close>





subsection \<open>The daily change\<close>



text \<open>
  C2. When the five-day history of a ticker has fewer than two rows, the daily-change part
  shows nothing and ends normally: no metric, no exception, no position read.
\<close>

theorem daily_change_omitted:
  assumes "yf_history env ticker ''5d'' = Inr hist_5d"
    and "length hist_5d < 2"
  shows "daily_change env ticker = ([], Inr ())"
  using assms unfolding daily_change_def get_stock_data_def
  by (simp add: bind_lift_Inr ret_def)

theorem daily_change_omitted_witness:
  "daily_change demo_env ''NEW'' = ([], Inr ())"
  using daily_change_omitted [of demo_env "''NEW''" "[demo_bar 5 103]"]
  by (simp add: demo_env_def)

subsection \<open>The loop over the tickers\<close>

text \<open>
  C3. When the company info of a ticker is fetched and its price history comes back empty,
  the section of the ticker is exactly one warning that names the ticker (no header, chart,
  metric, summary or news), and the loop goes on with the next ticker.
\<close>

theorem empty_history_warns_and_skips:
  assumes "yf_get_info env ticker = Inr info"
    and "yf_history env ticker (period cfg) = Inr []"
  shows "render_ticker env cfg ticker =
           ([StWarning (''No data available for '' @ ticker)], Inr ())
       \<and> main_dashboard env cfg (ticker # tickers) =
           (StWarning (''No data available for '' @ ticker) #
              fst (main_dashboard env cfg tickers), Inr ())"
proof -
  have body: "ticker_body env cfg ticker =
      ([StWarning (''No data available for '' @ ticker)], Inr ())"
    unfolding ticker_body_def get_info_cached_def get_stock_data_def
    by (simp add: assms bind_lift_Inr emit_def)
  have one: "render_ticker env cfg ticker =
      ([StWarning (''No data available for '' @ ticker)], Inr ())"
    unfolding render_ticker_def body by (simp add: catch_Inr)
  show ?thesis using one by (simp add: main_dashboard_Cons del: main_dashboard.simps)
qed

theorem empty_history_warns_and_skips_witness:
  "main_dashboard demo_env demo_cfg [''EMPTY''] =
     ([StWarning ''No data available for EMPTY''], Inr ())"
  using empty_history_warns_and_skips [of demo_env "''EMPTY''" demo_info demo_cfg "[]"]
  by (simp add: demo_env_def demo_cfg_def ret_def del: main_dashboard.simps(2))

text \<open>
  C4. When the body of the loop raises an exception \<open>e\<close> for a ticker after the effects
  \<open>out\<close>, the turn of that ticker ends normally with \<open>out\<close> followed by one error message
  that holds the ticker and the text of \<open>e\<close>. In the whole run this stands between the
  unchanged output of the tickers before and the unchanged output of the tickers after.
  For every list of tickers the output is the concatenation of the outputs of the single
  tickers, and the loop never raises.
\<close>

theorem ticker_exception_contained:
  assumes "ticker_body env cfg ticker = (out, Inl e)"
  shows "render_ticker env cfg ticker =
           (out @ [StError (''Could not load info for '' @ ticker @ '': '' @ exn_str e)], Inr ())
       \<and> main_dashboard env cfg (before @ ticker # after) =
           (fst (main_dashboard env cfg before)
              @ out @ [StError (''Could not load info for '' @ ticker @ '': '' @ exn_str e)]
              @ fst (main_dashboard env cfg after), Inr ())
       \<and> fst (main_dashboard env cfg tickers) =
           concat (map (\<lambda>t. fst (render_ticker env cfg t)) tickers)
       \<and> snd (main_dashboard env cfg tickers) = Inr ()"
proof -
  have one: "render_ticker env cfg ticker =
      (out @ [StError (''Could not load info for '' @ ticker @ '': '' @ exn_str e)], Inr ())"
    unfolding render_ticker_def assms by (simp add: catch_Inl emit_def)
  have two: "main_dashboard env cfg (before @ ticker # after) =
           (fst (main_dashboard env cfg before)
              @ out @ [StError (''Could not load info for '' @ ticker @ '': '' @ exn_str e)]
              @ fst (main_dashboard env cfg after), Inr ())"
    by (simp add: main_dashboard_append [of env cfg before "ticker # after"]
        main_dashboard_Cons one del: main_dashboard.simps)
  have three: "fst (main_dashboard env cfg tickers) =
           concat (map (\<lambda>t. fst (render_ticker env cfg t)) tickers)"
    by (induction tickers)
       (simp_all add: ret_def main_dashboard_Cons del: main_dashboard.simps(2))
  show ?thesis using one two three main_dashboard_returns by blast
qed

theorem ticker_exception_contained_witness:
  "main_dashboard demo_env demo_cfg [''EMPTY'', ''FAKE123'', ''EMPTY''] =
     ([StWarning ''No data available for EMPTY'',
       StError ''Could not load info for FAKE123: no such ticker'',
       StWarning ''No data available for EMPTY''], Inr ())"
proof -
  have body: "ticker_body demo_env demo_cfg ''FAKE123'' =
      ([], Inl (Exn ''KeyError'' ''no such ticker''))"
    by (simp add: ticker_body_def get_info_cached_def demo_env_def bind_lift_Inl)
  have w: "fst (main_dashboard demo_env demo_cfg [''EMPTY'']) =
      [StWarning ''No data available for EMPTY'']"
    by (simp add: main_dashboard_Cons render_ticker_def ticker_body_def get_info_cached_def
        get_stock_data_def demo_env_def demo_cfg_def bind_lift_Inr emit_def catch_Inr ret_def
        del: main_dashboard.simps(2))
  show ?thesis
    using ticker_exception_contained [OF body, of "[''EMPTY'']" "[''EMPTY'']"] w
    by (simp del: main_dashboard.simps)
qed

subsection \<open>The news\<close>

text \<open>
  C5. Called with an empty API key, the news function returns the empty list and has no
  effect: it sends no request. With an empty key in the sidebar the news part of a ticker
  shows its title and the prompt to enter a key, shows no news item and ends normally.
\<close>

theorem no_key_no_news:
  "get_company_news env symbol [] = ([], Inr [])
   \<and> (finnhub_api cfg = [] \<longrightarrow>
        news_section env cfg ticker =
          ([StSubheader (news_title ticker), StInfo enter_key_prompt], Inr ()))"
  by (simp add: get_company_news_def news_section_def ret_def andthen_def bind_def emit_def)

theorem no_key_no_news_witness:
  "news_section demo_env demo_cfg ''AAPL'' =
     ([StSubheader (news_title ''AAPL''), StInfo enter_key_prompt], Inr ())"
  using no_key_no_news [of demo_env "''AAPL''" demo_cfg "''AAPL''"]
  by (simp add: demo_cfg_def)

text \<open>
  C6. With a non-empty key the news function sends one request with the symbol, the dates
  of thirty days ago and of today, and the key. When that request raises an exception, or
  is answered with a status other than 200, the function returns the empty list and raises
  nothing.
\<close>

theorem news_fetch_failure_is_silent:
  assumes "api_key \<noteq> []"
    and "params = [(''symbol'', symbol), (''from'', isoformat env (today env - 30)),
                   (''to'', isoformat env (today env)), (''token'', api_key)]"
    and "(\<exists>e. requests_get env FINNHUB_NEWS_URL params = Inl e)
         \<or> (\<exists>r. requests_get env FINNHUB_NEWS_URL params = Inr r \<and> status_code r \<noteq> 200)"
  shows "get_company_news env symbol api_key = ([HttpGet FINNHUB_NEWS_URL params], Inr [])"
  using assms
  by (auto simp: get_company_news_def request_def bind_def catch_def ret_def Let_def)

theorem news_fetch_failure_is_silent_witness:
  "get_company_news demo_env ''AAPL'' ''secret'' =
     ([HttpGet FINNHUB_NEWS_URL [(''symbol'', ''AAPL''), (''from'', ''2024-03-25''),
         (''to'', ''2024-04-24''), (''token'', ''secret'')]], Inr [])"
  using news_fetch_failure_is_silent [of "''secret''" _ "''AAPL''" demo_env, OF _ refl]
  by (simp add: demo_env_def)

subsection \<open>The metrics\<close>

text \<open>What the metrics part shows, up to the first exception of a format.\<close>

lemma metrics_effects:
  "fst (metrics env info ticker) =
     (case price_text (dict_get info ''currentPrice'') of
        Inl e \<Rightarrow> []
      | Inr p \<Rightarrow> StMetric ''Current Price'' p None #
          (case cap_text (dict_get info ''marketCap'') of
             Inl e \<Rightarrow> []
           | Inr c \<Rightarrow> StMetric ''Market Cap'' c None #
               StMetric ''52w High / Low''
                 (high_low_text (py_repr env) (dict_get info ''fiftyTwoWeekHigh'')
                    (dict_get info ''fiftyTwoWeekLow'')) None #
               fst (daily_change env ticker)))"
  by (cases "daily_change env ticker")
     (auto simp: metrics_def Let_def bind_def lift_def andthen_def emit_def
           split: sum.splits)

lemma dec_0: "dec 0 = ''0''"
  by code_simp

lemma dec_150: "dec 150 = ''150''"
  by code_simp

lemma group3_150: "group3 ''150'' = ''150''"
  by (simp add: group3_def)

lemma price_text_demo: "price_text (PFloat (Fin 150)) = Inr ''$150.00''"
  by (simp add: price_text_def round_half_even_def dec_150 dec_0 group3_150 zero_pad_def Let_def)

text \<open>
  C7. For a company info without any of the four fields, the current price and the market
  capitalisation are shown as \<open>N/A\<close>, but the third metric is built from the two missing
  values without a test and shows \<open>$None / $None\<close>.
\<close>

theorem missing_high_low_shows_None:
  "price_text PNone = Inr ''N/A'' \<and> cap_text PNone = Inr ''N/A''
   \<and> high_low_text rp PNone PNone = ''$None / $None''
   \<and> take 3 (fst (metrics env [] ticker)) =
       [StMetric ''Current Price'' ''N/A'' None, StMetric ''Market Cap'' ''N/A'' None,
        StMetric ''52w High / Low'' ''$None / $None'' None]"
  by (simp add: metrics_effects price_text_def cap_text_def dict_get_def high_low_text_def)

text \<open>
  C10. A current price or a market capitalisation equal to zero, as an int or as a float,
  is shown as \<open>N/A\<close>: the first metric when the price is zero, the second metric when the
  capitalisation is zero (and the text of the price could be built).
\<close>

theorem zero_price_or_cap_is_na:
  "price_text (PInt 0) = Inr ''N/A'' \<and> price_text (PFloat (Fin 0)) = Inr ''N/A''
   \<and> cap_text (PInt 0) = Inr ''N/A'' \<and> cap_text (PFloat (Fin 0)) = Inr ''N/A''
   \<and> (map_of info ''currentPrice'' = Some z \<and> (z = PInt 0 \<or> z = PFloat (Fin 0)) \<longrightarrow>
        take 1 (fst (metrics env info ticker)) = [StMetric ''Current Price'' ''N/A'' None])
   \<and> (map_of info ''marketCap'' = Some z \<and> (z = PInt 0 \<or> z = PFloat (Fin 0))
        \<and> price_text (dict_get info ''currentPrice'') = Inr p \<longrightarrow>
        take 2 (fst (metrics env info ticker)) =
          [StMetric ''Current Price'' p None, StMetric ''Market Cap'' ''N/A'' None])"
  by (auto simp: metrics_effects price_text_def cap_text_def dict_get_def split: sum.splits)

theorem zero_price_or_cap_is_na_witness:
  "take 2 (fst (metrics demo_env demo_info ''AAPL'')) =
     [StMetric ''Current Price'' ''$150.00'' None, StMetric ''Market Cap'' ''N/A'' None]
   \<and> take 1 (fst (metrics demo_env [(''currentPrice'', PFloat (Fin 0))] ''AAPL'')) =
     [StMetric ''Current Price'' ''N/A'' None]"
  using zero_price_or_cap_is_na [of demo_info "PInt 0" demo_env "''AAPL''" "''$150.00''"]
    zero_price_or_cap_is_na [of "[(''currentPrice'', PFloat (Fin 0))]" "PFloat (Fin 0)"
      demo_env "''AAPL''" "''N/A''"]
    price_text_demo
  by (simp add: demo_info_def dict_get_def)

subsection \<open>The company summary\<close>






subsection \<open>The refresh timer\<close>


text \<open>
  C9. In a render cycle whose session holds the last refresh timestamp \<open>T\<close>, with
  interval \<open>I\<close> and the clock reading \<open>now\<close>: when \<open>now - T > I\<close> the scheduler calls
  \<open>st.rerun()\<close> exactly once and stores as last refresh timestamp the time it reads at
  that moment (the next reading of the clock); when \<open>now - T \<le> I\<close> it calls no rerun and
  leaves the session state as it is. At \<open>now = T + I + 1\<close> exactly one refresh fires.
\<close>

theorem auto_refresh_fires_iff_elapsed:
  assumes "session_state w ''last_refresh'' = Some T"
  shows "(clock w (reads w) - T > of_int I \<longrightarrow>
            fst (auto_refresh I w) = [StRerun] \<and>
            session_state (snd (auto_refresh I w)) ''last_refresh''
              = Some (clock w (Suc (reads w))))
       \<and> (clock w (reads w) - T \<le> of_int I \<longrightarrow>
            fst (auto_refresh I w) = [] \<and>
            session_state (snd (auto_refresh I w)) = session_state w)
       \<and> (clock w (reads w) = T + of_int I + 1 \<longrightarrow>
            fst (auto_refresh I w) = [StRerun])"
  using assms
  by (simp add: auto_refresh_def time_time_def session_store_def)

theorem auto_refresh_fires_iff_elapsed_witness:
  "fst (auto_refresh 60
      \<lparr>session_state = [''last_refresh'' \<mapsto> 1000], clock = (\<lambda>n. 1061 + of_nat n), reads = 0\<rparr>)
     = [StRerun]
   \<and> session_state (snd (auto_refresh 60
      \<lparr>session_state = [''last_refresh'' \<mapsto> 1000], clock = (\<lambda>n. 1061 + of_nat n), reads = 0\<rparr>))
      ''last_refresh'' = Some 1062
   \<and> fst (auto_refresh 60
      \<lparr>session_state = [''last_refresh'' \<mapsto> 1000], clock = (\<lambda>n. 1060 + of_nat n), reads = 0\<rparr>)
     = []"
  using auto_refresh_fires_iff_elapsed
    [of "\<lparr>session_state = [''last_refresh'' \<mapsto> 1000], clock = (\<lambda>n. 1061 + of_nat n), reads = 0\<rparr>"
        1000 60]
    auto_refresh_fires_iff_elapsed
    [of "\<lparr>session_state = [''last_refresh'' \<mapsto> 1000], clock = (\<lambda>n. 1060 + of_nat n), reads = 0\<rparr>"
        1000 60]
  by simp

end
